theory Spec2Isabelle
  imports Main "HOL-Library.AList" "HOL-Library.Sublist"
begin

section \<open>Python values, dictionaries and exceptions\<close>

text \<open>
  The service keeps its users in a module-level dictionary \<open>fake_users_db\<close> from ids to
  user records, each record a dictionary from field names to strings. Python dictionaries
  iterate in insertion order, and the handlers depend on that order (\<open>values()\<close>,
  \<open>items()\<close>), so a dictionary is an association list: \<open>d[k]\<close> is \<open>getitem\<close>,
  \<open>k in d\<close> is \<open>map_of d k \<noteq> None\<close>, \<open>d[k] = v\<close> is \<open>AList.update\<close> (in place
  for a key that is there, at the end for a new one) and \<open>len(d)\<close> is \<open>length\<close>.
\<close>

type_synonym pydict = "(string \<times> string) list"

type_synonym store = "(string \<times> pydict) list"

text \<open>
  Every way a handler can stop: the \<open>HTTPException\<close> it raises itself, with status code
  and detail, and the three Python exceptions that the dictionary and attribute accesses and
  the construction of a pydantic model raise. Each carries the offending name.
\<close>

datatype error =
    HTTPException nat string
  | KeyError string
  | AttributeError string
  | ValidationError string

text \<open>The values found in the plain dictionaries that some handlers return.\<close>

datatype pyval = PStr string | PInt int | PList "pyval list"

definition bindE :: "error + 'a \<Rightarrow> ('a \<Rightarrow> error + 'b) \<Rightarrow> error + 'b" where
  "bindE m f = (case m of Inl e \<Rightarrow> Inl e | Inr v \<Rightarrow> f v)"

definition getitem :: "(string \<times> 'b) list \<Rightarrow> string \<Rightarrow> error + 'b" where
  "getitem d k = (case map_of d k of None \<Rightarrow> Inl (KeyError k) | Some v \<Rightarrow> Inr v)"

text \<open>
  An instance of a pydantic model is the dictionary of its declared fields; reading an
  attribute that the model does not declare raises \<open>AttributeError\<close>.
\<close>

definition getattr :: "pydict \<Rightarrow> string \<Rightarrow> error + string" where
  "getattr obj name = (case map_of obj name of None \<Rightarrow> Inl (AttributeError name) | Some v \<Rightarrow> Inr v)"

text \<open>
  Constructing a pydantic model from keyword arguments, under the default configuration:
  every declared field is required, a keyword that is not a declared field is ignored, and
  the instance holds the declared fields in their declared order. The error names the first
  missing field.
\<close>

fun BaseModel_init :: "string list \<Rightarrow> pydict \<Rightarrow> error + pydict" where
  "BaseModel_init [] kwargs = Inr []"
| "BaseModel_init (f # fs) kwargs =
     (case map_of kwargs f of
        None \<Rightarrow> Inl (ValidationError f)
      | Some v \<Rightarrow>
          (case BaseModel_init fs kwargs of
             Inl e \<Rightarrow> Inl e
           | Inr obj \<Rightarrow> Inr ((f, v) # obj)))"

text \<open>A list comprehension whose element expression may raise: the first exception ends it.\<close>

fun mapE :: "('a \<Rightarrow> error + 'b) \<Rightarrow> 'a list \<Rightarrow> error + 'b list" where
  "mapE f [] = Inr []"
| "mapE f (x # xs) =
     (case f x of
        Inl e \<Rightarrow> Inl e
      | Inr y \<Rightarrow> (case mapE f xs of Inl e \<Rightarrow> Inl e | Inr ys \<Rightarrow> Inr (y # ys)))"

definition startswith :: "string \<Rightarrow> string \<Rightarrow> bool" where
  "startswith s p = prefix p s"

text \<open>The decimal numeral that an f-string writes for a non-negative integer.\<close>

definition digit_char :: "nat \<Rightarrow> char" where
  "digit_char d = char_of (48 + d)"

fun str_of_nat :: "nat \<Rightarrow> string" where
  "str_of_nat n = (if n < 10 then [digit_char n] else str_of_nat (n div 10) @ [digit_char (n mod 10)])"

declare str_of_nat.simps [simp del]

text \<open>
  The status line of the HTTP response: the code of an \<open>HTTPException\<close>, 500 for any other
  exception that leaves a handler, 200 for a returned value.
\<close>

fun http_status :: "error + 'a \<Rightarrow> nat" where
  "http_status (Inl (HTTPException code detail)) = code"
| "http_status (Inl _) = 500"
| "http_status (Inr _) = 200"

record LoginResponse =
  success :: bool
  token :: string
  refreshToken :: string
  expiresIn :: int
  user :: pydict

section \<open>The modular variant: main.py, models.py, database.py\<close>

subsection \<open>models.py\<close>

definition UserResponse_fields_main :: "string list" where
  "UserResponse_fields_main = [''id'', ''name'', ''mobile'', ''created_at'']"

definition LoginRequest_main :: "string \<Rightarrow> string \<Rightarrow> pydict" where
  "LoginRequest_main mailId password = [(''mailId'', mailId), (''password'', password)]"

definition CreateUserRequest_main :: "string \<Rightarrow> string \<Rightarrow> string \<Rightarrow> string \<Rightarrow> pydict" where
  "CreateUserRequest_main mailId password name mobile =
     [(''mailId'', mailId), (''password'', password), (''name'', name), (''mobile'', mobile)]"

definition RefreshTokenRequest_main :: "string \<Rightarrow> pydict" where
  "RefreshTokenRequest_main refresh_token = [(''refresh_token'', refresh_token)]"

subsection \<open>database.py\<close>

definition fake_users_db_main :: store where
  "fake_users_db_main =
     [(''user1'',
        [(''id'', ''user1''),
         (''mail'', ''john@example.com''),
         (''name'', ''John Doe''),
         (''phone'', ''+1-234-567-8900''),
         (''password'', ''hashed_password_123''),
         (''created_at'', ''2024-01-01T10:00:00Z'')]),
      (''user2'',
        [(''id'', ''user2''),
         (''mail'', ''jane@example.com''),
         (''name'', ''Jane Smith''),
         (''phone'', ''+1-987-654-3210''),
         (''password'', ''hashed_password_456''),
         (''created_at'', ''2024-01-02T10:00:00Z'')])]"

subsection \<open>main.py\<close>

text \<open>
  Every handler takes the store and returns its outcome together with the store it leaves.
  The clock is an argument: \<open>now_iso\<close> is \<open>datetime.now().isoformat()\<close> and \<open>ts1\<close>,
  \<open>ts2\<close> are the texts of two successive \<open>datetime.now().timestamp()\<close>.
\<close>

definition root_main :: "store \<Rightarrow> (error + (string \<times> pyval) list) \<times> store" where
  "root_main db =
     (Inr [(''message'', PStr ''User API is running''),
           (''version'', PStr ''1.0.0''),
           (''endpoints'', PList [PStr ''GET /users/{id}'', PStr ''POST /users'',
                                  PStr ''POST /login'', PStr ''GET /health''])], db)"

definition health_check_main :: "store \<Rightarrow> (error + (string \<times> pyval) list) \<times> store" where
  "health_check_main db = (Inr [(''status'', PStr ''healthy'')], db)"

definition get_status_main :: "store \<Rightarrow> string \<Rightarrow> (error + (string \<times> pyval) list) \<times> store" where
  "get_status_main db now_iso =
     (Inr [(''status'', PStr ''running''),
           (''version'', PStr ''1.0.0''),
           (''timestamp'', PStr (now_iso @ ''Z'')),
           (''users_count'', PInt (int (length db)))], db)"

text \<open>
  The expression \<open>UserResponse(id=u["id"], gmail=u["gmail"], name=u["name"],
  phone=u["phone"], created_at=u["created_at"])\<close> of \<open>get_user\<close>, \<open>list_users\<close> and
  \<open>create_user\<close>; the arguments are evaluated from left to right.
\<close>

definition user_response_main :: "pydict \<Rightarrow> error + pydict" where
  "user_response_main u =
     bindE (getitem u ''id'') (\<lambda>v_id.
     bindE (getitem u ''gmail'') (\<lambda>v_gmail.
     bindE (getitem u ''name'') (\<lambda>v_name.
     bindE (getitem u ''phone'') (\<lambda>v_phone.
     bindE (getitem u ''created_at'') (\<lambda>v_created_at.
       BaseModel_init UserResponse_fields_main
         [(''id'', v_id), (''gmail'', v_gmail), (''name'', v_name),
          (''phone'', v_phone), (''created_at'', v_created_at)])))))"

definition get_user_main :: "store \<Rightarrow> string \<Rightarrow> (error + pydict) \<times> store" where
  "get_user_main db user_id =
     (if map_of db user_id = None then (Inl (HTTPException 404 ''User not found''), db)
      else (bindE (getitem db user_id) user_response_main, db))"

definition list_users_main :: "store \<Rightarrow> (error + pydict list) \<times> store" where
  "list_users_main db = (mapE user_response_main (map snd db), db)"

definition create_user_main :: "store \<Rightarrow> pydict \<Rightarrow> string \<Rightarrow> (error + pydict) \<times> store" where
  "create_user_main db request now_iso =
     (let new_user_id = ''user'' @ str_of_nat (length db + 1) in
      case bindE (getattr request ''gmail'') (\<lambda>v_gmail.
           bindE (getattr request ''password'') (\<lambda>v_password.
           bindE (getattr request ''name'') (\<lambda>v_name.
           bindE (getattr request ''phone'') (\<lambda>v_phone.
             Inr [(''id'', new_user_id), (''gmail'', v_gmail), (''password'', v_password),
                  (''name'', v_name), (''phone'', v_phone),
                  (''created_at'', now_iso @ ''Z'')])))) of
        Inl e \<Rightarrow> (Inl e, db)
      | Inr new_user \<Rightarrow> (user_response_main new_user, AList.update new_user_id new_user db))"

text \<open>
  The loop of \<open>login\<close> over \<open>fake_users_db.items()\<close>: the first record whose \<open>gmail\<close>
  equals the request's, with its key, or \<open>None\<close>.
\<close>

fun login_scan_main :: "store \<Rightarrow> pydict \<Rightarrow> error + (string \<times> pydict) option" where
  "login_scan_main [] request = Inr None"
| "login_scan_main ((uid, u) # rest) request =
     (case getitem u ''gmail'' of
        Inl e \<Rightarrow> Inl e
      | Inr v_gmail \<Rightarrow>
          (case getattr request ''gmail'' of
             Inl e \<Rightarrow> Inl e
           | Inr r_gmail \<Rightarrow>
               if v_gmail = r_gmail then Inr (Some (uid, u))
               else login_scan_main rest request))"

text \<open>\<open>not user\<close> holds of \<open>None\<close> and of an empty dictionary.\<close>

definition login_main ::
  "store \<Rightarrow> pydict \<Rightarrow> string \<Rightarrow> string \<Rightarrow> (error + LoginResponse) \<times> store" where
  "login_main db request ts1 ts2 =
     (case login_scan_main db request of
        Inl e \<Rightarrow> (Inl e, db)
      | Inr None \<Rightarrow> (Inl (HTTPException 401 ''Invalid credentials''), db)
      | Inr (Some (user_id, u)) \<Rightarrow>
          if u = [] then (Inl (HTTPException 401 ''Invalid credentials''), db)
          else
            (bindE (getitem u ''password'') (\<lambda>v_password.
             bindE (getattr request ''password'') (\<lambda>r_password.
               if v_password \<noteq> r_password then Inl (HTTPException 401 ''Invalid credentials'')
               else
                 bindE (getitem u ''id'') (\<lambda>v_id.
                 bindE (getitem u ''gmail'') (\<lambda>v_gmail.
                 bindE (getitem u ''name'') (\<lambda>v_name.
                   Inr \<lparr>success = True,
                        token = ''token_jwt_'' @ user_id @ ''_'' @ ts1,
                        refreshToken = ''refresh_'' @ user_id @ ''_'' @ ts2,
                        expiresIn = 3600,
                        user = [(''id'', v_id), (''gmail'', v_gmail), (''name'', v_name)]\<rparr>))))), db))"

definition refresh_token_main ::
  "store \<Rightarrow> pydict \<Rightarrow> string \<Rightarrow> string \<Rightarrow> (error + (string \<times> pyval) list) \<times> store" where
  "refresh_token_main db request ts1 ts2 =
     (bindE (getattr request ''refresh_token'') (\<lambda>rt.
        if \<not> startswith rt ''refresh_'' then Inl (HTTPException 401 ''Invalid refresh token'')
        else Inr [(''token'', PStr (''token_jwt_refreshed_'' @ ts1)),
                  (''refreshToken'', PStr (''refresh_refreshed_'' @ ts2)),
                  (''expiresIn'', PInt 3600)]), db)"

definition get_profile_main :: "store \<Rightarrow> string \<Rightarrow> string \<Rightarrow> (error + pydict) \<times> store" where
  "get_profile_main db tok now_iso =
     (if \<not> startswith tok ''token_'' then (Inl (HTTPException 401 ''Invalid token''), db)
      else
        (bindE (getitem db ''user1'') (\<lambda>u.
         bindE (getitem u ''id'') (\<lambda>v_id.
         bindE (getitem u ''gmail'') (\<lambda>v_gmail.
         bindE (getitem u ''name'') (\<lambda>v_name.
         bindE (getitem u ''phone'') (\<lambda>v_phone.
         bindE (getitem u ''created_at'') (\<lambda>v_created_at.
           Inr [(''id'', v_id), (''gmail'', v_gmail), (''name'', v_name), (''phone'', v_phone),
                (''created_at'', v_created_at), (''lastLogin'', now_iso @ ''Z'')])))))), db))"

section \<open>The single-file variant: sample_fastapi.py\<close>

subsection \<open>Models\<close>

definition UserResponse_fields_sample :: "string list" where
  "UserResponse_fields_sample = [''id'', ''name'', ''mobile'', ''created_at'']"

definition LoginRequest_sample :: "string \<Rightarrow> pydict" where
  "LoginRequest_sample password = [(''password'', password)]"

definition CreateUserRequest_sample :: "string \<Rightarrow> string \<Rightarrow> string \<Rightarrow> pydict" where
  "CreateUserRequest_sample password name mobile =
     [(''password'', password), (''name'', name), (''mobile'', mobile)]"

subsection \<open>Fake data\<close>

definition fake_users_db_sample :: store where
  "fake_users_db_sample =
     [(''user1'',
        [(''id'', ''user1''),
         (''email'', ''john@example.com''),
         (''name'', ''John Doe''),
         (''mobile'', ''+1-234-567-8900''),
         (''password'', ''hashed_password_123''),
         (''created_at'', ''2024-01-01T10:00:00Z'')]),
      (''user2'',
        [(''id'', ''user2''),
         (''email'', ''jane@example.com''),
         (''name'', ''Jane Smith''),
         (''mobile'', ''+1-987-654-3210''),
         (''password'', ''hashed_password_456''),
         (''created_at'', ''2024-01-02T10:00:00Z'')])]"

subsection \<open>Endpoints\<close>

definition root_sample :: "store \<Rightarrow> (error + (string \<times> pyval) list) \<times> store" where
  "root_sample db =
     (Inr [(''message'', PStr ''User API is running''),
           (''version'', PStr ''1.0.0''),
           (''endpoints'', PList [PStr ''GET /users/{id}'', PStr ''POST /users'',
                                  PStr ''POST /login'', PStr ''GET /health''])], db)"

definition health_check_sample :: "store \<Rightarrow> (error + (string \<times> pyval) list) \<times> store" where
  "health_check_sample db = (Inr [(''status'', PStr ''healthy'')], db)"

text \<open>
  The expression \<open>UserResponse(id=u["id"], email=u["email"], name=u["name"],
  mobile=u["mobile"], created_at=u["created_at"])\<close> of \<open>get_user\<close>, \<open>list_users\<close> and
  \<open>create_user\<close>.
\<close>

definition user_response_sample :: "pydict \<Rightarrow> error + pydict" where
  "user_response_sample u =
     bindE (getitem u ''id'') (\<lambda>v_id.
     bindE (getitem u ''email'') (\<lambda>v_email.
     bindE (getitem u ''name'') (\<lambda>v_name.
     bindE (getitem u ''mobile'') (\<lambda>v_mobile.
     bindE (getitem u ''created_at'') (\<lambda>v_created_at.
       BaseModel_init UserResponse_fields_sample
         [(''id'', v_id), (''email'', v_email), (''name'', v_name),
          (''mobile'', v_mobile), (''created_at'', v_created_at)])))))"

definition get_user_sample :: "store \<Rightarrow> string \<Rightarrow> (error + pydict) \<times> store" where
  "get_user_sample db user_id =
     (if map_of db user_id = None then (Inl (HTTPException 404 ''User not found''), db)
      else (bindE (getitem db user_id) user_response_sample, db))"

definition list_users_sample :: "store \<Rightarrow> (error + pydict list) \<times> store" where
  "list_users_sample db = (mapE user_response_sample (map snd db), db)"

definition create_user_sample :: "store \<Rightarrow> pydict \<Rightarrow> string \<Rightarrow> (error + pydict) \<times> store" where
  "create_user_sample db request now_iso =
     (let new_user_id = ''user'' @ str_of_nat (length db + 1) in
      case bindE (getattr request ''email'') (\<lambda>v_email.
           bindE (getattr request ''password'') (\<lambda>v_password.
           bindE (getattr request ''name'') (\<lambda>v_name.
           bindE (getattr request ''mobile'') (\<lambda>v_mobile.
             Inr [(''id'', new_user_id), (''email'', v_email), (''password'', v_password),
                  (''name'', v_name), (''mobile'', v_mobile),
                  (''created_at'', now_iso @ ''Z'')])))) of
        Inl e \<Rightarrow> (Inl e, db)
      | Inr new_user \<Rightarrow> (user_response_sample new_user, AList.update new_user_id new_user db))"

fun login_scan_sample :: "store \<Rightarrow> pydict \<Rightarrow> error + (string \<times> pydict) option" where
  "login_scan_sample [] request = Inr None"
| "login_scan_sample ((uid, u) # rest) request =
     (case getitem u ''email'' of
        Inl e \<Rightarrow> Inl e
      | Inr v_email \<Rightarrow>
          (case getattr request ''email'' of
             Inl e \<Rightarrow> Inl e
           | Inr r_email \<Rightarrow>
               if v_email = r_email then Inr (Some (uid, u))
               else login_scan_sample rest request))"

text \<open>This variant's \<open>login\<close> has no password comparison.\<close>

definition login_sample ::
  "store \<Rightarrow> pydict \<Rightarrow> string \<Rightarrow> string \<Rightarrow> (error + LoginResponse) \<times> store" where
  "login_sample db request ts1 ts2 =
     (case login_scan_sample db request of
        Inl e \<Rightarrow> (Inl e, db)
      | Inr None \<Rightarrow> (Inl (HTTPException 401 ''Invalid credentials''), db)
      | Inr (Some (user_id, u)) \<Rightarrow>
          if u = [] then (Inl (HTTPException 401 ''Invalid credentials''), db)
          else
            (bindE (getitem u ''id'') (\<lambda>v_id.
             bindE (getitem u ''email'') (\<lambda>v_email.
             bindE (getitem u ''name'') (\<lambda>v_name.
               Inr \<lparr>success = True,
                    token = ''token_jwt_'' @ user_id @ ''_'' @ ts1,
                    refreshToken = ''refresh_'' @ user_id @ ''_'' @ ts2,
                    expiresIn = 3600,
                    user = [(''id'', v_id), (''email'', v_email), (''name'', v_name)]\<rparr>))), db))"

text \<open>Here the refresh token is a plain string parameter, not a request model.\<close>

definition refresh_token_sample ::
  "store \<Rightarrow> string \<Rightarrow> string \<Rightarrow> string \<Rightarrow> (error + (string \<times> pyval) list) \<times> store" where
  "refresh_token_sample db refresh_token ts1 ts2 =
     (if \<not> startswith refresh_token ''refresh_''
      then (Inl (HTTPException 401 ''Invalid refresh token''), db)
      else (Inr [(''token'', PStr (''token_jwt_refreshed_'' @ ts1)),
                 (''refreshToken'', PStr (''refresh_refreshed_'' @ ts2)),
                 (''expiresIn'', PInt 3600)], db))"

definition get_profile_sample :: "store \<Rightarrow> string \<Rightarrow> string \<Rightarrow> (error + pydict) \<times> store" where
  "get_profile_sample db tok now_iso =
     (if \<not> startswith tok ''token_'' then (Inl (HTTPException 401 ''Invalid token''), db)
      else
        (bindE (getitem db ''user1'') (\<lambda>u.
         bindE (getitem u ''id'') (\<lambda>v_id.
         bindE (getitem u ''email'') (\<lambda>v_email.
         bindE (getitem u ''name'') (\<lambda>v_name.
         bindE (getitem u ''mobile'') (\<lambda>v_mobile.
         bindE (getitem u ''created_at'') (\<lambda>v_created_at.
           Inr [(''id'', v_id), (''email'', v_email), (''name'', v_name), (''mobile'', v_mobile),
                (''created_at'', v_created_at), (''lastLogin'', now_iso @ ''Z'')])))))), db))"

definition get_status_sample :: "store \<Rightarrow> string \<Rightarrow> (error + (string \<times> pyval) list) \<times> store" where
  "get_status_sample db now_iso =
     (Inr [(''status'', PStr ''running''),
           (''version'', PStr ''1.0.0''),
           (''timestamp'', PStr (now_iso @ ''Z'')),
           (''users_count'', PInt (int (length db)))], db)"

section \<open>Reachable stores and the vocabulary of the properties\<close>

text \<open>
  The stores the service can be in: the seed, and whatever a handler leaves when it is
  called on a reachable store with an argument of its declared type.
\<close>

inductive reachable_main :: "store \<Rightarrow> bool" where
  seed: "reachable_main fake_users_db_main"
| root: "reachable_main db \<Longrightarrow> reachable_main (snd (root_main db))"
| health_check: "reachable_main db \<Longrightarrow> reachable_main (snd (health_check_main db))"
| get_status: "reachable_main db \<Longrightarrow> reachable_main (snd (get_status_main db now_iso))"
| get_user: "reachable_main db \<Longrightarrow> reachable_main (snd (get_user_main db user_id))"
| list_users: "reachable_main db \<Longrightarrow> reachable_main (snd (list_users_main db))"
| create_user:
    "reachable_main db \<Longrightarrow>
     reachable_main (snd (create_user_main db (CreateUserRequest_main mailId password name mobile) now_iso))"
| login:
    "reachable_main db \<Longrightarrow>
     reachable_main (snd (login_main db (LoginRequest_main mailId password) ts1 ts2))"
| refresh_token:
    "reachable_main db \<Longrightarrow>
     reachable_main (snd (refresh_token_main db (RefreshTokenRequest_main s) ts1 ts2))"
| get_profile: "reachable_main db \<Longrightarrow> reachable_main (snd (get_profile_main db tok now_iso))"

inductive reachable_sample :: "store \<Rightarrow> bool" where
  seed: "reachable_sample fake_users_db_sample"
| root: "reachable_sample db \<Longrightarrow> reachable_sample (snd (root_sample db))"
| health_check: "reachable_sample db \<Longrightarrow> reachable_sample (snd (health_check_sample db))"
| get_status: "reachable_sample db \<Longrightarrow> reachable_sample (snd (get_status_sample db now_iso))"
| get_user: "reachable_sample db \<Longrightarrow> reachable_sample (snd (get_user_sample db user_id))"
| list_users: "reachable_sample db \<Longrightarrow> reachable_sample (snd (list_users_sample db))"
| create_user:
    "reachable_sample db \<Longrightarrow>
     reachable_sample (snd (create_user_sample db (CreateUserRequest_sample password name mobile) now_iso))"
| login:
    "reachable_sample db \<Longrightarrow>
     reachable_sample (snd (login_sample db (LoginRequest_sample password) ts1 ts2))"
| refresh_token:
    "reachable_sample db \<Longrightarrow> reachable_sample (snd (refresh_token_sample db s ts1 ts2))"
| get_profile: "reachable_sample db \<Longrightarrow> reachable_sample (snd (get_profile_sample db tok now_iso))"





text \<open>
  Two records that differ only in the value stored under \<open>password\<close>, and two stores with
  the same ids in the same order whose records differ only so.
\<close>

definition same_except_password :: "pydict \<Rightarrow> pydict \<Rightarrow> bool" where
  "same_except_password r1 r2 =
     list_all2 (\<lambda>(k1, v1) (k2, v2). k1 = k2 \<and> (k1 \<noteq> ''password'' \<longrightarrow> v1 = v2)) r1 r2"

definition differ_only_in_passwords :: "store \<Rightarrow> store \<Rightarrow> bool" where
  "differ_only_in_passwords db1 db2 =
     list_all2 (\<lambda>(i1, r1) (i2, r2). i1 = i2 \<and> same_except_password r1 r2) db1 db2"

text \<open>
  \<open>issued a r\<close>: some call of \<open>login\<close> or \<open>refresh_token\<close>, in either variant, returned
  the access token \<open>a\<close> together with the refresh token \<open>r\<close>.
\<close>

inductive issued :: "string \<Rightarrow> string \<Rightarrow> bool" where
  by_login_main:
    "fst (login_main db request ts1 ts2) = Inr resp \<Longrightarrow> issued (token resp) (refreshToken resp)"
| by_login_sample:
    "fst (login_sample db request ts1 ts2) = Inr resp \<Longrightarrow> issued (token resp) (refreshToken resp)"
| by_refresh_token_main:
    "fst (refresh_token_main db request ts1 ts2) = Inr d \<Longrightarrow>
     map_of d ''token'' = Some (PStr a) \<Longrightarrow> map_of d ''refreshToken'' = Some (PStr r) \<Longrightarrow>
     issued a r"
| by_refresh_token_sample:
    "fst (refresh_token_sample db s ts1 ts2) = Inr d \<Longrightarrow>
     map_of d ''token'' = Some (PStr a) \<Longrightarrow> map_of d ''refreshToken'' = Some (PStr r) \<Longrightarrow>
     issued a r"

section \<open>What the handlers do\<close>

lemmas main_defs =
  root_main_def health_check_main_def get_status_main_def get_user_main_def
  list_users_main_def login_main_def refresh_token_main_def get_profile_main_def

lemmas sample_defs =
  root_sample_def health_check_sample_def get_status_sample_def get_user_sample_def
  list_users_sample_def login_sample_def refresh_token_sample_def get_profile_sample_def

subsection \<open>Exceptions and status codes\<close>

lemma bindE_simps: "bindE (Inl e) f = Inl e" "bindE (Inr v) f = f v"
  by (simp_all add: bindE_def)

lemma http_status_404: "http_status r = 404 \<longleftrightarrow> (\<exists>d. r = Inl (HTTPException 404 d))"
  by (cases r rule: http_status.cases) auto

lemma http_status_401: "http_status r = 401 \<longleftrightarrow> (\<exists>d. r = Inl (HTTPException 401 d))"
  by (cases r rule: http_status.cases) auto

lemma mapE_all:
  "mapE f xs = Inr ys \<Longrightarrow> y \<in> set ys \<Longrightarrow> \<exists>x\<in>set xs. f x = Inr y"
  by (induction xs arbitrary: ys) (auto split: sum.splits)

lemma str_of_nat_3: "str_of_nat 3 = ''3''"
  by code_simp

subsection \<open>The response model\<close>

text \<open>
  \<open>UserResponse\<close> declares \<open>mobile\<close>, and main.py never passes it: there the construction
  raises for every record, on the missing key \<open>gmail\<close> of the seed records or else on the
  missing field. sample_fastapi.py passes \<open>mobile\<close>, and its extra \<open>email\<close> is dropped.
\<close>

lemma BaseModel_init_fields: "BaseModel_init fs kwargs = Inr obj \<Longrightarrow> map fst obj = fs"
  by (induction fs arbitrary: obj) (auto split: option.splits sum.splits)

lemma user_response_main_raises: "\<exists>k. user_response_main u = Inl (KeyError k) \<or> user_response_main u = Inl (ValidationError k)"
  by (auto simp: user_response_main_def UserResponse_fields_main_def bindE_def getitem_def split: option.splits)

lemma user_response_main_never_returns: "user_response_main u \<noteq> Inr r"
  using user_response_main_raises [of u] by auto

lemma user_response_sample_fields:
  "user_response_sample u = Inr r \<Longrightarrow> map fst r = [''id'', ''name'', ''mobile'', ''created_at'']"
  by (auto simp: user_response_sample_def UserResponse_fields_sample_def bindE_def getitem_def split: option.splits)

lemma user_response_sample_not_http: "user_response_sample u \<noteq> Inl (HTTPException c d)"
  by (auto simp: user_response_sample_def UserResponse_fields_sample_def bindE_def getitem_def split: option.splits)

lemma user_response_sample_no_password:
  assumes "user_response_sample u = Inr r"
  shows "''password'' \<notin> fst ` set r"
proof -
  have "set (map fst r) = set [''id'', ''name'', ''mobile'', ''created_at'']"
    using user_response_sample_fields [OF assms] by simp
  then have "fst ` set r = {''id'', ''name'', ''mobile'', ''created_at''}"
    by simp
  then show ?thesis by simp
qed

subsection \<open>create_user raises on every request of its declared type\<close>

text \<open>
  \<open>create_user\<close> reads \<open>request.gmail\<close> (main.py) and \<open>request.email\<close>
  (sample_fastapi.py); neither \<open>CreateUserRequest\<close> declares that field. The exception
  comes before the assignment to the store, so the store never leaves its seed.
\<close>

lemma create_user_main_raises:
  "create_user_main db (CreateUserRequest_main mailId password name mobile) now_iso =
     (Inl (AttributeError ''gmail''), db)"
  by (simp add: create_user_main_def CreateUserRequest_main_def getattr_def bindE_def)

lemma create_user_sample_raises:
  "create_user_sample db (CreateUserRequest_sample password name mobile) now_iso =
     (Inl (AttributeError ''email''), db)"
  by (simp add: create_user_sample_def CreateUserRequest_sample_def getattr_def bindE_def)

lemma create_user_main_never_returns: "fst (create_user_main db request now_iso) \<noteq> Inr r"
  by (simp add: create_user_main_def Let_def user_response_main_never_returns split: sum.split)

lemma snd_others_main:
  "snd (get_user_main db user_id) = db" "snd (list_users_main db) = db"
  "snd (login_main db request ts1 ts2) = db" "snd (refresh_token_main db request ts1 ts2) = db"
  "snd (get_profile_main db tok now_iso) = db" "snd (get_status_main db now_iso) = db"
  "snd (health_check_main db) = db" "snd (root_main db) = db"
  by (simp_all add: main_defs split: sum.split option.split prod.split)

lemma snd_others_sample:
  "snd (get_user_sample db user_id) = db" "snd (list_users_sample db) = db"
  "snd (login_sample db request ts1 ts2) = db" "snd (refresh_token_sample db tok ts1 ts2) = db"
  "snd (get_profile_sample db tok now_iso) = db" "snd (get_status_sample db now_iso) = db"
  "snd (health_check_sample db) = db" "snd (root_sample db) = db"
  by (simp_all add: sample_defs split: sum.split option.split prod.split)

lemma reachable_main_is_seed: "reachable_main db \<Longrightarrow> db = fake_users_db_main"
  by (induction rule: reachable_main.induct) (simp_all add: snd_others_main create_user_main_raises)

lemma reachable_sample_is_seed: "reachable_sample db \<Longrightarrow> db = fake_users_db_sample"
  by (induction rule: reachable_sample.induct) (simp_all add: snd_others_sample create_user_sample_raises)

lemma create_user_keeps_other_records:
  assumes "k \<noteq> ''user'' @ str_of_nat (length db + 1)"
  shows "map_of (snd (create_user_main db request now_iso)) k = map_of db k"
    and "map_of (snd (create_user_sample db request now_iso)) k = map_of db k"
  using assms
  by (simp_all add: create_user_main_def create_user_sample_def Let_def update_conv'
      split: sum.split)

lemma seed_ids:
  "map_of fake_users_db_main k = Some u \<Longrightarrow> k = ''user1'' \<or> k = ''user2''"
  "map_of fake_users_db_sample k = Some u \<Longrightarrow> k = ''user1'' \<or> k = ''user2''"
  by (simp_all add: fake_users_db_main_def fake_users_db_sample_def split: if_splits)

lemma create_user_keeps_records_main:
  assumes "reachable_main db" and "map_of db k = Some u"
  shows "map_of (snd (create_user_main db request now_iso)) k = Some u"
proof -
  have db: "db = fake_users_db_main" by (rule reachable_main_is_seed [OF assms(1)])
  have "length db + 1 = 3" by (simp add: db fake_users_db_main_def)
  moreover have "k = ''user1'' \<or> k = ''user2''" using assms(2) seed_ids(1) db by blast
  ultimately have "k \<noteq> ''user'' @ str_of_nat (length db + 1)" by (auto simp: str_of_nat_3)
  from create_user_keeps_other_records(1) [OF this] assms(2) show ?thesis by simp
qed

lemma create_user_keeps_records_sample:
  assumes "reachable_sample db" and "map_of db k = Some u"
  shows "map_of (snd (create_user_sample db request now_iso)) k = Some u"
proof -
  have db: "db = fake_users_db_sample" by (rule reachable_sample_is_seed [OF assms(1)])
  have "length db + 1 = 3" by (simp add: db fake_users_db_sample_def)
  moreover have "k = ''user1'' \<or> k = ''user2''" using assms(2) seed_ids(2) db by blast
  ultimately have "k \<noteq> ''user'' @ str_of_nat (length db + 1)" by (auto simp: str_of_nat_3)
  from create_user_keeps_other_records(2) [OF this] assms(2) show ?thesis by simp
qed

subsection \<open>Logging in\<close>

lemma login_main_seed_raises:
  "login_main fake_users_db_main request ts1 ts2 = (Inl (KeyError ''gmail''), fake_users_db_main)"
  by (simp add: login_main_def fake_users_db_main_def getitem_def)

lemma login_sample_seed_raises:
  "login_sample fake_users_db_sample (LoginRequest_sample password) ts1 ts2 =
     (Inl (AttributeError ''email''), fake_users_db_sample)"
  by (simp add: login_sample_def fake_users_db_sample_def LoginRequest_sample_def getitem_def getattr_def)

lemma login_scan_sample_request:
  "map_of rq1 ''email'' = map_of rq2 ''email'' \<Longrightarrow> login_scan_sample db rq1 = login_scan_sample db rq2"
  by (induction db rq1 rule: login_scan_sample.induct) (simp_all add: getattr_def split: sum.split)

lemma login_sample_never_reads_password:
  "map_of rq1 ''email'' = map_of rq2 ''email'' \<Longrightarrow>
   login_sample db rq1 ts1 ts2 = login_sample db rq2 ts1 ts2"
  by (simp add: login_sample_def login_scan_sample_request [of rq1 rq2])

text \<open>
  C1: a login whose contact and password match a stored record returns \<open>success=true\<close>, and
  a login with an unknown contact or a wrong password returns 401, in both variants. The
  handlers do neither: on the seed store, with the stored credentials of \<open>user1\<close>, main.py
  raises \<open>KeyError\<close> on the key \<open>gmail\<close> of the first record and sample_fastapi.py raises
  \<open>AttributeError\<close> on \<open>request.email\<close>; both answer 500.
\<close>

theorem login_raises_on_valid_credentials:
  "login_main fake_users_db_main (LoginRequest_main ''john@example.com'' ''hashed_password_123'')
      ''1730000000.5'' ''1730000000.6'' = (Inl (KeyError ''gmail''), fake_users_db_main)
   \<and> http_status (fst (login_main fake_users_db_main
        (LoginRequest_main ''john@example.com'' ''hashed_password_123'')
        ''1730000000.5'' ''1730000000.6'')) = 500
   \<and> login_sample fake_users_db_sample (LoginRequest_sample ''hashed_password_123'')
      ''1730000000.5'' ''1730000000.6'' = (Inl (AttributeError ''email''), fake_users_db_sample)
   \<and> http_status (fst (login_sample fake_users_db_sample (LoginRequest_sample ''hashed_password_123'')
        ''1730000000.5'' ''1730000000.6'')) = 500"
  by (simp add: login_main_def login_sample_def fake_users_db_main_def fake_users_db_sample_def
      LoginRequest_main_def LoginRequest_sample_def getitem_def getattr_def)

subsection \<open>Getting a user\<close>

lemma get_user_main_404_iff_absent:
  "http_status (fst (get_user_main db user_id)) = 404 \<longleftrightarrow> map_of db user_id = None"
proof (cases "map_of db user_id")
  case None
  then show ?thesis by (simp add: get_user_main_def)
next
  case (Some u)
  from user_response_main_raises [of u] have "http_status (user_response_main u) = 500"
    by auto
  with Some show ?thesis by (simp add: get_user_main_def getitem_def bindE_def)
qed

lemma get_user_sample_404_iff_absent:
  "http_status (fst (get_user_sample db user_id)) = 404 \<longleftrightarrow> map_of db user_id = None"
proof (cases "map_of db user_id")
  case None
  then show ?thesis by (simp add: get_user_sample_def)
next
  case (Some u)
  have "http_status (user_response_sample u) \<noteq> 404"
    by (simp add: http_status_404 user_response_sample_not_http)
  with Some show ?thesis by (simp add: get_user_sample_def getitem_def bindE_def)
qed

lemma get_user_sample_present:
  assumes "map_of db user_id = Some u"
    and "map_of u ''id'' = Some v_id" and "map_of u ''email'' = Some v_email"
    and "map_of u ''name'' = Some v_name" and "map_of u ''mobile'' = Some v_mobile"
    and "map_of u ''created_at'' = Some v_created_at"
  shows "fst (get_user_sample db user_id) =
    Inr [(''id'', v_id), (''name'', v_name), (''mobile'', v_mobile), (''created_at'', v_created_at)]"
  using assms
  by (simp add: get_user_sample_def user_response_sample_def UserResponse_fields_sample_def
      getitem_def bindE_def)

lemma get_user_main_never_returns: "fst (get_user_main db uid) \<noteq> Inr r"
  by (simp add: get_user_main_def bindE_def user_response_main_never_returns split: sum.split)

text \<open>
  C2: get-user returns 404 exactly when the id is absent and otherwise 200 with the mapped
  record. The 404 half holds in both variants (the two lemmas above), and the 200 half holds
  in sample_fastapi.py; in main.py a stored id never gives 200: for \<open>user1\<close> of the seed
  store the handler raises \<open>KeyError\<close> on \<open>gmail\<close> and answers 500.
\<close>

theorem get_user_main_raises_on_stored_id:
  "get_user_main fake_users_db_main ''user1'' = (Inl (KeyError ''gmail''), fake_users_db_main)
   \<and> http_status (fst (get_user_main fake_users_db_main ''user1'')) = 500"
  by (simp add: get_user_main_def user_response_main_def fake_users_db_main_def getitem_def bindE_def)

subsection \<open>Creating a user\<close>

text \<open>
  C3: create-user followed by get-user on the returned id yields the created field values.
  In both variants the create call raises \<open>AttributeError\<close>, returns no id and stores
  nothing, and the id \<open>user3\<close> it would have allocated is still absent afterwards.
\<close>

theorem create_then_get_does_not_round_trip:
  "create_user_main fake_users_db_main (CreateUserRequest_main ''x@y.com'' ''p'' ''X'' ''555'')
      ''2024-06-01T12:00:00'' = (Inl (AttributeError ''gmail''), fake_users_db_main)
   \<and> fst (get_user_main (snd (create_user_main fake_users_db_main
        (CreateUserRequest_main ''x@y.com'' ''p'' ''X'' ''555'') ''2024-06-01T12:00:00'')) ''user3'') =
       Inl (HTTPException 404 ''User not found'')
   \<and> create_user_sample fake_users_db_sample (CreateUserRequest_sample ''p'' ''X'' ''555'')
      ''2024-06-01T12:00:00'' = (Inl (AttributeError ''email''), fake_users_db_sample)
   \<and> fst (get_user_sample (snd (create_user_sample fake_users_db_sample
        (CreateUserRequest_sample ''p'' ''X'' ''555'') ''2024-06-01T12:00:00'')) ''user3'') =
       Inl (HTTPException 404 ''User not found'')"
  by (simp add: create_user_main_def create_user_sample_def CreateUserRequest_main_def
      CreateUserRequest_sample_def getattr_def bindE_def get_user_main_def get_user_sample_def
      fake_users_db_main_def fake_users_db_sample_def)

subsection \<open>The ids that create_user allocates\<close>



















subsection \<open>Listing users\<close>

lemma list_users_sample_seed:
  "fst (list_users_sample fake_users_db_sample) =
     Inr [[(''id'', ''user1''), (''name'', ''John Doe''), (''mobile'', ''+1-234-567-8900''),
           (''created_at'', ''2024-01-01T10:00:00Z'')],
          [(''id'', ''user2''), (''name'', ''Jane Smith''), (''mobile'', ''+1-987-654-3210''),
           (''created_at'', ''2024-01-02T10:00:00Z'')]]"
  by (simp add: list_users_sample_def user_response_sample_def UserResponse_fields_sample_def
      fake_users_db_sample_def getitem_def bindE_def)

text \<open>
  C5: list-users never fails and returns all records in insertion order. It does so in
  sample_fastapi.py; in main.py, on the seed store, it raises \<open>KeyError\<close> on \<open>gmail\<close>
  at the first record and answers 500.
\<close>

theorem list_users_main_raises_on_seed:
  "list_users_main fake_users_db_main = (Inl (KeyError ''gmail''), fake_users_db_main)
   \<and> http_status (fst (list_users_main fake_users_db_main)) = 500"
  by (simp add: list_users_main_def user_response_main_def fake_users_db_main_def getitem_def bindE_def)

subsection \<open>Refreshing a token\<close>

text \<open>
  C6: for every refresh-token string \<open>s\<close>, in both variants, the answer is 401 exactly when
  \<open>s\<close> does not start with \<open>refresh_\<close>; when it does, the answer is the new token pair,
  built from the clock alone, with the validity window 3600, whatever the store holds and
  whether or not \<open>s\<close> was ever issued.
\<close>

theorem refresh_token_prefix_check:
  "(http_status (fst (refresh_token_main db (RefreshTokenRequest_main s) ts1 ts2)) = 401
      \<longleftrightarrow> \<not> prefix ''refresh_'' s)
   \<and> (http_status (fst (refresh_token_sample db s ts1 ts2)) = 401 \<longleftrightarrow> \<not> prefix ''refresh_'' s)
   \<and> (prefix ''refresh_'' s \<longrightarrow>
        fst (refresh_token_main db (RefreshTokenRequest_main s) ts1 ts2) =
          Inr [(''token'', PStr (''token_jwt_refreshed_'' @ ts1)),
               (''refreshToken'', PStr (''refresh_refreshed_'' @ ts2)),
               (''expiresIn'', PInt 3600)]
      \<and> fst (refresh_token_sample db s ts1 ts2) =
          Inr [(''token'', PStr (''token_jwt_refreshed_'' @ ts1)),
               (''refreshToken'', PStr (''refresh_refreshed_'' @ ts2)),
               (''expiresIn'', PInt 3600)])"
  by (simp add: refresh_token_main_def refresh_token_sample_def RefreshTokenRequest_main_def
      getattr_def bindE_def startswith_def)

theorem refresh_token_prefix_check_witness:
  "prefix ''refresh_'' ''refresh_never_issued''
   \<and> fst (refresh_token_main fake_users_db_main (RefreshTokenRequest_main ''refresh_never_issued'')
            ''1730000000.5'' ''1730000000.6'') =
       Inr [(''token'', PStr ''token_jwt_refreshed_1730000000.5''),
            (''refreshToken'', PStr ''refresh_refreshed_1730000000.6''),
            (''expiresIn'', PInt 3600)]
   \<and> http_status (fst (refresh_token_sample fake_users_db_sample ''token_jwt_user1_1.5''
            ''1730000000.5'' ''1730000000.6'')) = 401"
  using
    refresh_token_prefix_check [of fake_users_db_main "''refresh_never_issued''"
      "''1730000000.5''" "''1730000000.6''"]
    refresh_token_prefix_check [of fake_users_db_sample "''token_jwt_user1_1.5''"
      "''1730000000.5''" "''1730000000.6''"]
  by simp

subsection \<open>Getting the profile\<close>

lemma get_profile_401_iff:
  "http_status (fst (get_profile_main db tok now_iso)) = 401 \<longleftrightarrow> \<not> prefix ''token_'' tok"
  "http_status (fst (get_profile_sample db tok now_iso)) = 401 \<longleftrightarrow> \<not> prefix ''token_'' tok"
proof -
  have a: "http_status (bindE (getitem db ''user1'') f) \<noteq> 401"
    if "\<And>u. http_status (f u) \<noteq> 401" for f :: "pydict \<Rightarrow> error + pydict"
    using that by (simp add: bindE_def getitem_def split: option.split)
  have b: "http_status (bindE (getitem u k) f) \<noteq> 401"
    if "\<And>v. http_status (f v) \<noteq> 401" for f :: "string \<Rightarrow> error + pydict" and u k
    using that by (simp add: bindE_def getitem_def split: option.split)
  show "http_status (fst (get_profile_main db tok now_iso)) = 401 \<longleftrightarrow> \<not> prefix ''token_'' tok"
    by (simp add: get_profile_main_def startswith_def a b)
  show "http_status (fst (get_profile_sample db tok now_iso)) = 401 \<longleftrightarrow> \<not> prefix ''token_'' tok"
    by (simp add: get_profile_sample_def startswith_def a b)
qed

lemma get_profile_sample_seed:
  "prefix ''token_'' tok \<Longrightarrow>
   fst (get_profile_sample fake_users_db_sample tok now_iso) =
     Inr [(''id'', ''user1''), (''email'', ''john@example.com''), (''name'', ''John Doe''),
          (''mobile'', ''+1-234-567-8900''), (''created_at'', ''2024-01-01T10:00:00Z''),
          (''lastLogin'', now_iso @ ''Z'')]"
  by (simp add: get_profile_sample_def startswith_def fake_users_db_sample_def getitem_def bindE_def)

text \<open>
  C7: get-profile returns 401 exactly when the token does not start with \<open>token_\<close>, and
  otherwise 200 with the fields of \<open>user1\<close> and a fresh \<open>lastLogin\<close>. The 401 half
  holds in both variants and the 200 half in sample_fastapi.py (the lemmas above); in
  main.py a well-prefixed token on the seed store raises \<open>KeyError\<close> on \<open>gmail\<close> and
  answers 500.
\<close>

theorem get_profile_main_raises_on_valid_token:
  "get_profile_main fake_users_db_main ''token_jwt_user1_1730000000.5'' ''2024-06-01T12:00:00'' =
     (Inl (KeyError ''gmail''), fake_users_db_main)
   \<and> http_status (fst (get_profile_main fake_users_db_main ''token_jwt_user1_1730000000.5''
        ''2024-06-01T12:00:00'')) = 500"
  by (simp add: get_profile_main_def startswith_def fake_users_db_main_def getitem_def bindE_def)

subsection \<open>The store is written by nothing but create_user\<close>

text \<open>
  C8: get user, list users, login, refresh token, get profile, status, health and the root
  endpoint leave \<open>fake_users_db\<close> exactly as they found it, in both variants, for every
  store and every argument, whether they return or raise. The one assignment to the store is
  in \<open>create_user\<close>, and on a reachable store it deletes and updates nothing: every record
  found before the call is found unchanged after it.
\<close>

theorem only_create_user_writes_the_store:
  "snd (get_user_main db user_id) = db
   \<and> snd (list_users_main db) = db
   \<and> snd (login_main db request ts1 ts2) = db
   \<and> snd (refresh_token_main db request ts1 ts2) = db
   \<and> snd (get_profile_main db tok now_iso) = db
   \<and> snd (get_status_main db now_iso) = db
   \<and> snd (health_check_main db) = db
   \<and> snd (root_main db) = db
   \<and> snd (get_user_sample db user_id) = db
   \<and> snd (list_users_sample db) = db
   \<and> snd (login_sample db request ts1 ts2) = db
   \<and> snd (refresh_token_sample db tok ts1 ts2) = db
   \<and> snd (get_profile_sample db tok now_iso) = db
   \<and> snd (get_status_sample db now_iso) = db
   \<and> snd (health_check_sample db) = db
   \<and> snd (root_sample db) = db
   \<and> (reachable_main db \<longrightarrow>
        (\<forall>k u. map_of db k = Some u \<longrightarrow>
           map_of (snd (create_user_main db request now_iso)) k = Some u))
   \<and> (reachable_sample db \<longrightarrow>
        (\<forall>k u. map_of db k = Some u \<longrightarrow>
           map_of (snd (create_user_sample db request now_iso)) k = Some u))"
  by (simp add: snd_others_main snd_others_sample create_user_keeps_records_main
      create_user_keeps_records_sample)

theorem only_create_user_writes_the_store_witness:
  "reachable_sample fake_users_db_sample
   \<and> map_of fake_users_db_sample ''user2'' =
       Some [(''id'', ''user2''), (''email'', ''jane@example.com''), (''name'', ''Jane Smith''),
             (''mobile'', ''+1-987-654-3210''), (''password'', ''hashed_password_456''),
             (''created_at'', ''2024-01-02T10:00:00Z'')]
   \<and> map_of (snd (create_user_sample fake_users_db_sample
        (CreateUserRequest_sample ''p'' ''X'' ''555'') ''2024-06-01T12:00:00'')) ''user2'' =
       Some [(''id'', ''user2''), (''email'', ''jane@example.com''), (''name'', ''Jane Smith''),
             (''mobile'', ''+1-987-654-3210''), (''password'', ''hashed_password_456''),
             (''created_at'', ''2024-01-02T10:00:00Z'')]
   \<and> snd (login_sample fake_users_db_sample (LoginRequest_sample ''hashed_password_123'')
        ''1730000000.5'' ''1730000000.6'') = fake_users_db_sample"
proof -
  have r: "reachable_sample fake_users_db_sample"
    by (rule reachable_sample.seed)
  have m: "map_of fake_users_db_sample ''user2'' =
       Some [(''id'', ''user2''), (''email'', ''jane@example.com''), (''name'', ''Jane Smith''),
             (''mobile'', ''+1-987-654-3210''), (''password'', ''hashed_password_456''),
             (''created_at'', ''2024-01-02T10:00:00Z'')]"
    by (simp add: fake_users_db_sample_def)
  from only_create_user_writes_the_store [where db = fake_users_db_sample
      and request = "CreateUserRequest_sample ''p'' ''X'' ''555''"
      and now_iso = "''2024-06-01T12:00:00''"]
    only_create_user_writes_the_store [where db = fake_users_db_sample
      and request = "LoginRequest_sample ''hashed_password_123''"
      and ?ts1.0 = "''1730000000.5''" and ?ts2.0 = "''1730000000.6''"]
    r m
  show ?thesis by blast
qed

subsection \<open>Stored passwords and the responses\<close>

lemma same_except_password_map_of:
  "same_except_password r1 r2 \<Longrightarrow> k \<noteq> ''password'' \<Longrightarrow> map_of r1 k = map_of r2 k"
  unfolding same_except_password_def
  by (induction r1 r2 rule: list_all2_induct) auto

lemma same_except_password_getitem:
  "same_except_password r1 r2 \<Longrightarrow> k \<noteq> ''password'' \<Longrightarrow> getitem r1 k = getitem r2 k"
  by (simp add: getitem_def same_except_password_map_of)

lemma same_except_password_keys:
  "same_except_password r1 r2 \<Longrightarrow> map fst r1 = map fst r2"
  unfolding same_except_password_def
  by (induction r1 r2 rule: list_all2_induct) auto

lemma same_except_password_Nil: "same_except_password r1 r2 \<Longrightarrow> r1 = [] \<longleftrightarrow> r2 = []"
  by (auto simp: same_except_password_def)

lemma same_except_password_has_key:
  assumes "same_except_password r1 r2"
  shows "(\<exists>e. getitem r1 k = Inl e \<and> getitem r2 k = Inl e) \<or>
         (\<exists>v1 v2. getitem r1 k = Inr v1 \<and> getitem r2 k = Inr v2)"
proof -
  have "map_of r1 k = None \<longleftrightarrow> map_of r2 k = None"
    using same_except_password_keys [OF assms] by (metis map_of_eq_None_iff set_map)
  then show ?thesis
    by (cases "map_of r1 k"; cases "map_of r2 k") (simp_all add: getitem_def)
qed

lemma user_response_sample_cong:
  "same_except_password r1 r2 \<Longrightarrow> user_response_sample r1 = user_response_sample r2"
  by (simp add: user_response_sample_def same_except_password_getitem)

lemma user_response_main_cong:
  "same_except_password r1 r2 \<Longrightarrow> user_response_main r1 = user_response_main r2"
  by (simp add: user_response_main_def same_except_password_getitem)

lemma differ_map_of:
  "differ_only_in_passwords db1 db2 \<Longrightarrow>
   rel_option same_except_password (map_of db1 k) (map_of db2 k)"
  unfolding differ_only_in_passwords_def
  by (induction db1 db2 rule: list_all2_induct) auto

lemma differ_length: "differ_only_in_passwords db1 db2 \<Longrightarrow> length db1 = length db2"
  unfolding differ_only_in_passwords_def by (rule list_all2_lengthD)

lemma differ_mapE:
  assumes "\<And>r1 r2. same_except_password r1 r2 \<Longrightarrow> f r1 = f r2"
  shows "differ_only_in_passwords db1 db2 \<Longrightarrow> mapE f (map snd db1) = mapE f (map snd db2)"
  unfolding differ_only_in_passwords_def
  by (induction db1 db2 rule: list_all2_induct) (auto simp: assms split: sum.splits)

lemma differ_getitem:
  assumes "differ_only_in_passwords db1 db2"
  shows "(\<exists>e. getitem db1 k = Inl e \<and> getitem db2 k = Inl e) \<or>
         (\<exists>u1 u2. getitem db1 k = Inr u1 \<and> getitem db2 k = Inr u2 \<and> same_except_password u1 u2)"
  using differ_map_of [OF assms, of k]
  by (cases "map_of db1 k"; cases "map_of db2 k") (simp_all add: getitem_def)

lemma differ_absent:
  assumes "differ_only_in_passwords db1 db2"
  shows "map_of db1 k = None \<longleftrightarrow> map_of db2 k = None"
  using differ_map_of [OF assms, of k]
  by (cases "map_of db1 k"; cases "map_of db2 k") simp_all

lemma get_user_low:
  assumes "differ_only_in_passwords db1 db2"
  shows "fst (get_user_main db1 uid) = fst (get_user_main db2 uid)"
    and "fst (get_user_sample db1 uid) = fst (get_user_sample db2 uid)"
  using differ_getitem [OF assms, of uid] differ_absent [OF assms, of uid]
  by (auto simp: get_user_main_def get_user_sample_def bindE_simps
      user_response_main_cong user_response_sample_cong)

lemma list_users_low:
  assumes "differ_only_in_passwords db1 db2"
  shows "fst (list_users_main db1) = fst (list_users_main db2)"
    and "fst (list_users_sample db1) = fst (list_users_sample db2)"
  using assms by (simp_all add: list_users_main_def list_users_sample_def differ_mapE
      user_response_main_cong user_response_sample_cong)

lemma get_profile_low:
  assumes "differ_only_in_passwords db1 db2"
  shows "fst (get_profile_main db1 tok now_iso) = fst (get_profile_main db2 tok now_iso)"
    and "fst (get_profile_sample db1 tok now_iso) = fst (get_profile_sample db2 tok now_iso)"
  using differ_getitem [OF assms, of "''user1''"]
  by (auto simp: get_profile_main_def get_profile_sample_def bindE_simps
      same_except_password_getitem)

lemma create_user_low:
  assumes "differ_only_in_passwords db1 db2"
  shows "fst (create_user_main db1 request now_iso) = fst (create_user_main db2 request now_iso)"
    and "fst (create_user_sample db1 request now_iso) = fst (create_user_sample db2 request now_iso)"
  using differ_length [OF assms]
  by (simp_all add: create_user_main_def create_user_sample_def Let_def split: sum.splits)

lemma login_scan_main_low:
  "differ_only_in_passwords db1 db2 \<Longrightarrow>
   login_scan_main db1 request = login_scan_main db2 request \<or>
   (\<exists>uid u1 u2. login_scan_main db1 request = Inr (Some (uid, u1)) \<and>
                login_scan_main db2 request = Inr (Some (uid, u2)) \<and>
                same_except_password u1 u2)"
  unfolding differ_only_in_passwords_def
proof (induction db1 db2 rule: list_all2_induct)
  case Nil
  then show ?case by simp
next
  case (Cons x xs y ys)
  obtain i r1 where x: "x = (i, r1)" by (cases x)
  obtain j r2 where y: "y = (j, r2)" by (cases y)
  from Cons.hyps(1) x y have ij: "j = i" and rel: "same_except_password r1 r2" by simp_all
  have g: "getitem r1 ''gmail'' = getitem r2 ''gmail''"
    using rel by (simp add: same_except_password_getitem)
  show ?case
    using Cons.IH rel
    by (simp add: x y ij g split: sum.split)
qed

lemma login_scan_sample_low:
  "differ_only_in_passwords db1 db2 \<Longrightarrow>
   login_scan_sample db1 request = login_scan_sample db2 request \<or>
   (\<exists>uid u1 u2. login_scan_sample db1 request = Inr (Some (uid, u1)) \<and>
                login_scan_sample db2 request = Inr (Some (uid, u2)) \<and>
                same_except_password u1 u2)"
  unfolding differ_only_in_passwords_def
proof (induction db1 db2 rule: list_all2_induct)
  case Nil
  then show ?case by simp
next
  case (Cons x xs y ys)
  obtain i r1 where x: "x = (i, r1)" by (cases x)
  obtain j r2 where y: "y = (j, r2)" by (cases y)
  from Cons.hyps(1) x y have ij: "j = i" and rel: "same_except_password r1 r2" by simp_all
  have g: "getitem r1 ''email'' = getitem r2 ''email''"
    using rel by (simp add: same_except_password_getitem)
  show ?case
    using Cons.IH rel
    by (simp add: x y ij g split: sum.split)
qed

lemma login_sample_low:
  assumes "differ_only_in_passwords db1 db2"
  shows "fst (login_sample db1 request ts1 ts2) = fst (login_sample db2 request ts1 ts2)"
  using login_scan_sample_low [OF assms, of request]
proof
  assume "login_scan_sample db1 request = login_scan_sample db2 request"
  then show ?thesis
    by (simp add: login_sample_def split: sum.split option.split prod.split)
next
  assume "\<exists>uid u1 u2. login_scan_sample db1 request = Inr (Some (uid, u1)) \<and>
                login_scan_sample db2 request = Inr (Some (uid, u2)) \<and>
                same_except_password u1 u2"
  then obtain uid u1 u2 where
    s: "login_scan_sample db1 request = Inr (Some (uid, u1))"
       "login_scan_sample db2 request = Inr (Some (uid, u2))"
    and rel: "same_except_password u1 u2"
    by blast
  show ?thesis
    using same_except_password_Nil [OF rel]
    by (simp add: login_sample_def s same_except_password_getitem [OF rel])
qed

lemma login_main_low:
  assumes "differ_only_in_passwords db1 db2"
  shows "fst (login_main db1 request ts1 ts2) = fst (login_main db2 request ts1 ts2)
       \<or> fst (login_main db1 request ts1 ts2) = Inl (HTTPException 401 ''Invalid credentials'')
       \<or> fst (login_main db2 request ts1 ts2) = Inl (HTTPException 401 ''Invalid credentials'')"
  using login_scan_main_low [OF assms, of request]
proof
  assume "login_scan_main db1 request = login_scan_main db2 request"
  then show ?thesis
    by (simp add: login_main_def split: sum.split option.split prod.split)
next
  assume "\<exists>uid u1 u2. login_scan_main db1 request = Inr (Some (uid, u1)) \<and>
                login_scan_main db2 request = Inr (Some (uid, u2)) \<and>
                same_except_password u1 u2"
  then obtain uid u1 u2 where
    s: "login_scan_main db1 request = Inr (Some (uid, u1))"
       "login_scan_main db2 request = Inr (Some (uid, u2))"
    and rel: "same_except_password u1 u2"
    by blast
  note nil = same_except_password_Nil [OF rel]
  note eq = same_except_password_getitem [OF rel]
  from same_except_password_has_key [OF rel, of "''password''"]
  show ?thesis
  proof (elim disjE exE conjE)
    fix e assume "getitem u1 ''password'' = Inl e" "getitem u2 ''password'' = Inl e"
    then show ?thesis using nil by (simp add: login_main_def s bindE_simps)
  next
    fix v1 v2 assume v: "getitem u1 ''password'' = Inr v1" "getitem u2 ''password'' = Inr v2"
    show ?thesis
    proof (cases "getattr request ''password''")
      case (Inl e)
      then show ?thesis using nil by (simp add: login_main_def s v bindE_simps)
    next
      case (Inr p)
      then show ?thesis using nil by (simp add: login_main_def s v bindE_simps eq)
    qed
  qed
qed

lemma get_profile_no_password:
  "fst (get_profile_main db tok now_iso) = Inr r \<Longrightarrow> ''password'' \<notin> fst ` set r"
  "fst (get_profile_sample db tok now_iso) = Inr r \<Longrightarrow> ''password'' \<notin> fst ` set r"
  by (auto simp: get_profile_main_def get_profile_sample_def bindE_def split: if_splits sum.splits)

lemma get_user_sample_no_password:
  "fst (get_user_sample db uid) = Inr r \<Longrightarrow> ''password'' \<notin> fst ` set r"
  by (auto simp: get_user_sample_def bindE_def user_response_sample_no_password
      split: if_splits sum.splits)

lemma list_users_sample_no_password:
  "fst (list_users_sample db) = Inr rs \<Longrightarrow> r \<in> set rs \<Longrightarrow> ''password'' \<notin> fst ` set r"
  using mapE_all [of user_response_sample "map snd db" rs r]
  by (auto simp: list_users_sample_def dest: user_response_sample_no_password)

lemma list_users_main_no_password:
  "fst (list_users_main db) = Inr rs \<Longrightarrow> r \<in> set rs \<Longrightarrow> ''password'' \<notin> fst ` set r"
  using mapE_all [of user_response_main "map snd db" rs r]
  by (auto simp: list_users_main_def user_response_main_never_returns)

lemma create_user_sample_no_password:
  "fst (create_user_sample db request now_iso) = Inr r \<Longrightarrow> ''password'' \<notin> fst ` set r"
  by (auto simp: create_user_sample_def Let_def dest: user_response_sample_no_password
      split: sum.splits)

text \<open>
  C9: the responses of get-user, list-users, get-profile and create-user carry no
  \<open>password\<close> field and are the same on any two stores that differ only in the stored
  passwords; the stored passwords can change nothing but whether login answers 401. Proved
  for every pair of such stores, reachable or not, and for the whole outcome of each
  handler, errors included. The same holds of refresh-token, status and the login of
  sample_fastapi.py, which compares no password; for the login of main.py the two outcomes
  are equal unless one of them is the 401.
\<close>

theorem stored_passwords_do_not_reach_responses:
  assumes "differ_only_in_passwords db1 db2"
  shows
   "fst (get_user_main db1 uid) = fst (get_user_main db2 uid)
  \<and> fst (get_user_sample db1 uid) = fst (get_user_sample db2 uid)
  \<and> fst (list_users_main db1) = fst (list_users_main db2)
  \<and> fst (list_users_sample db1) = fst (list_users_sample db2)
  \<and> fst (get_profile_main db1 tok now_iso) = fst (get_profile_main db2 tok now_iso)
  \<and> fst (get_profile_sample db1 tok now_iso) = fst (get_profile_sample db2 tok now_iso)
  \<and> fst (create_user_main db1 request now_iso) = fst (create_user_main db2 request now_iso)
  \<and> fst (create_user_sample db1 request now_iso) = fst (create_user_sample db2 request now_iso)
  \<and> fst (refresh_token_main db1 request ts1 ts2) = fst (refresh_token_main db2 request ts1 ts2)
  \<and> fst (refresh_token_sample db1 tok ts1 ts2) = fst (refresh_token_sample db2 tok ts1 ts2)
  \<and> fst (get_status_main db1 now_iso) = fst (get_status_main db2 now_iso)
  \<and> fst (get_status_sample db1 now_iso) = fst (get_status_sample db2 now_iso)
  \<and> fst (login_sample db1 request ts1 ts2) = fst (login_sample db2 request ts1 ts2)
  \<and> (fst (login_main db1 request ts1 ts2) = fst (login_main db2 request ts1 ts2)
       \<or> fst (login_main db1 request ts1 ts2) = Inl (HTTPException 401 ''Invalid credentials'')
       \<or> fst (login_main db2 request ts1 ts2) = Inl (HTTPException 401 ''Invalid credentials''))
  \<and> (\<forall>r. fst (get_user_main db1 uid) = Inr r \<longrightarrow> ''password'' \<notin> fst ` set r)
  \<and> (\<forall>r. fst (get_user_sample db1 uid) = Inr r \<longrightarrow> ''password'' \<notin> fst ` set r)
  \<and> (\<forall>rs. fst (list_users_main db1) = Inr rs \<longrightarrow> (\<forall>r\<in>set rs. ''password'' \<notin> fst ` set r))
  \<and> (\<forall>rs. fst (list_users_sample db1) = Inr rs \<longrightarrow> (\<forall>r\<in>set rs. ''password'' \<notin> fst ` set r))
  \<and> (\<forall>r. fst (get_profile_main db1 tok now_iso) = Inr r \<longrightarrow> ''password'' \<notin> fst ` set r)
  \<and> (\<forall>r. fst (get_profile_sample db1 tok now_iso) = Inr r \<longrightarrow> ''password'' \<notin> fst ` set r)
  \<and> (\<forall>r. fst (create_user_main db1 request now_iso) = Inr r \<longrightarrow> ''password'' \<notin> fst ` set r)
  \<and> (\<forall>r. fst (create_user_sample db1 request now_iso) = Inr r \<longrightarrow> ''password'' \<notin> fst ` set r)"
proof -
  have len: "length db1 = length db2" by (rule differ_length [OF assms])
  have refresh: "fst (refresh_token_main db1 request ts1 ts2) = fst (refresh_token_main db2 request ts1 ts2)"
    "fst (refresh_token_sample db1 tok ts1 ts2) = fst (refresh_token_sample db2 tok ts1 ts2)"
    by (simp_all add: refresh_token_main_def refresh_token_sample_def)
  have status: "fst (get_status_main db1 now_iso) = fst (get_status_main db2 now_iso)"
    "fst (get_status_sample db1 now_iso) = fst (get_status_sample db2 now_iso)"
    by (simp_all add: get_status_main_def get_status_sample_def len)
  have nopw: "\<forall>r. fst (get_user_main db1 uid) = Inr r \<longrightarrow> ''password'' \<notin> fst ` set r"
    "\<forall>r. fst (get_user_sample db1 uid) = Inr r \<longrightarrow> ''password'' \<notin> fst ` set r"
    "\<forall>rs. fst (list_users_main db1) = Inr rs \<longrightarrow> (\<forall>r\<in>set rs. ''password'' \<notin> fst ` set r)"
    "\<forall>rs. fst (list_users_sample db1) = Inr rs \<longrightarrow> (\<forall>r\<in>set rs. ''password'' \<notin> fst ` set r)"
    "\<forall>r. fst (get_profile_main db1 tok now_iso) = Inr r \<longrightarrow> ''password'' \<notin> fst ` set r"
    "\<forall>r. fst (get_profile_sample db1 tok now_iso) = Inr r \<longrightarrow> ''password'' \<notin> fst ` set r"
    "\<forall>r. fst (create_user_main db1 request now_iso) = Inr r \<longrightarrow> ''password'' \<notin> fst ` set r"
    "\<forall>r. fst (create_user_sample db1 request now_iso) = Inr r \<longrightarrow> ''password'' \<notin> fst ` set r"
    by (simp_all add: get_user_main_never_returns get_user_sample_no_password
        list_users_main_no_password list_users_sample_no_password get_profile_no_password
        create_user_main_never_returns create_user_sample_no_password)
  note facts = get_user_low [OF assms] list_users_low [OF assms] get_profile_low [OF assms]
      create_user_low [OF assms] refresh status login_sample_low [OF assms]
      login_main_low [OF assms] nopw
  show ?thesis
    by (intro conjI) (rule facts)+
qed

theorem stored_passwords_do_not_reach_responses_witness:
  "differ_only_in_passwords fake_users_db_sample
     (map (\<lambda>(i, r). (i, AList.update ''password'' ''changed'' r)) fake_users_db_sample)
   \<and> fst (get_user_sample fake_users_db_sample ''user1'') =
       Inr [(''id'', ''user1''), (''name'', ''John Doe''), (''mobile'', ''+1-234-567-8900''),
            (''created_at'', ''2024-01-01T10:00:00Z'')]
   \<and> fst (get_user_sample
         (map (\<lambda>(i, r). (i, AList.update ''password'' ''changed'' r)) fake_users_db_sample) ''user1'') =
       Inr [(''id'', ''user1''), (''name'', ''John Doe''), (''mobile'', ''+1-234-567-8900''),
            (''created_at'', ''2024-01-01T10:00:00Z'')]
   \<and> ''password'' \<notin> fst ` set [(''id'', ''user1''), (''name'', ''John Doe''),
            (''mobile'', ''+1-234-567-8900''), (''created_at'', ''2024-01-01T10:00:00Z'')]"
proof -
  let ?db2 = "map (\<lambda>(i, r). (i, AList.update ''password'' ''changed'' r)) fake_users_db_sample"
  have h: "differ_only_in_passwords fake_users_db_sample ?db2"
    by (simp add: differ_only_in_passwords_def same_except_password_def fake_users_db_sample_def)
  have g: "fst (get_user_sample fake_users_db_sample ''user1'') =
       Inr [(''id'', ''user1''), (''name'', ''John Doe''), (''mobile'', ''+1-234-567-8900''),
            (''created_at'', ''2024-01-01T10:00:00Z'')]"
    by (simp add: get_user_sample_def user_response_sample_def UserResponse_fields_sample_def
        fake_users_db_sample_def getitem_def bindE_def)
  from stored_passwords_do_not_reach_responses [OF h, of "''user1''"] g h
  show ?thesis by simp
qed

subsection \<open>The two kinds of token\<close>

lemma login_main_tokens:
  "fst (login_main db request ts1 ts2) = Inr resp \<Longrightarrow>
   prefix ''token_jwt_'' (token resp) \<and> prefix ''refresh_'' (refreshToken resp)"
  by (auto simp: login_main_def bindE_def split: sum.splits option.splits prod.splits if_splits)

lemma login_sample_tokens:
  "fst (login_sample db request ts1 ts2) = Inr resp \<Longrightarrow>
   prefix ''token_jwt_'' (token resp) \<and> prefix ''refresh_'' (refreshToken resp)"
  by (auto simp: login_sample_def bindE_def split: sum.splits option.splits prod.splits if_splits)

lemma refresh_token_tokens:
  "fst (refresh_token_main db request ts1 ts2) = Inr d \<Longrightarrow>
     map_of d ''token'' = Some (PStr a) \<Longrightarrow> map_of d ''refreshToken'' = Some (PStr r) \<Longrightarrow>
     prefix ''token_jwt_'' a \<and> prefix ''refresh_'' r"
  "fst (refresh_token_sample db s ts1 ts2) = Inr d \<Longrightarrow>
     map_of d ''token'' = Some (PStr a) \<Longrightarrow> map_of d ''refreshToken'' = Some (PStr r) \<Longrightarrow>
     prefix ''token_jwt_'' a \<and> prefix ''refresh_'' r"
  by (auto simp: refresh_token_main_def refresh_token_sample_def bindE_def
      split: sum.splits if_splits)

lemma issued_prefixes: "issued a r \<Longrightarrow> prefix ''token_jwt_'' a \<and> prefix ''refresh_'' r"
  by (induction rule: issued.induct)
    (simp_all add: login_main_tokens login_sample_tokens refresh_token_tokens)

lemma access_prefix_checks:
  assumes "prefix ''token_jwt_'' a"
  shows "prefix ''token_'' a" and "\<not> prefix ''refresh_'' a"
  using assms by (auto elim!: prefixE)

lemma refresh_prefix_checks:
  assumes "prefix ''refresh_'' r"
  shows "\<not> prefix ''token_'' r"
  using assms by (auto elim!: prefixE)

text \<open>
  C10: every access token that login or refresh-token returns starts with \<open>token_jwt_\<close>,
  so get-profile does not answer 401 to it and refresh-token does; every refresh token they
  return starts with \<open>refresh_\<close>, so refresh-token accepts it and get-profile answers 401.
\<close>

theorem issued_tokens_not_interchangeable:
  assumes "issued a r"
  shows "prefix ''token_jwt_'' a \<and> prefix ''refresh_'' r
    \<and> http_status (fst (get_profile_main db a now_iso)) \<noteq> 401
    \<and> http_status (fst (get_profile_sample db a now_iso)) \<noteq> 401
    \<and> http_status (fst (refresh_token_main db (RefreshTokenRequest_main a) ts1 ts2)) = 401
    \<and> http_status (fst (refresh_token_sample db a ts1 ts2)) = 401
    \<and> http_status (fst (refresh_token_main db (RefreshTokenRequest_main r) ts1 ts2)) = 200
    \<and> http_status (fst (refresh_token_sample db r ts1 ts2)) = 200
    \<and> http_status (fst (get_profile_main db r now_iso)) = 401
    \<and> http_status (fst (get_profile_sample db r now_iso)) = 401"
proof -
  from issued_prefixes [OF assms] have a: "prefix ''token_jwt_'' a" and r: "prefix ''refresh_'' r"
    by simp_all
  note pa = access_prefix_checks [OF a]
  note pr = refresh_prefix_checks [OF r]
  have "http_status (fst (refresh_token_main db (RefreshTokenRequest_main a) ts1 ts2)) = 401"
    "http_status (fst (refresh_token_sample db a ts1 ts2)) = 401"
    "http_status (fst (refresh_token_main db (RefreshTokenRequest_main r) ts1 ts2)) = 200"
    "http_status (fst (refresh_token_sample db r ts1 ts2)) = 200"
    using pa r
    by (simp_all add: refresh_token_main_def refresh_token_sample_def RefreshTokenRequest_main_def
        getattr_def bindE_def startswith_def)
  then show ?thesis
    using a r pa pr by (simp add: get_profile_401_iff)
qed

theorem issued_tokens_not_interchangeable_witness:
  "issued ''token_jwt_refreshed_1730000000.5'' ''refresh_refreshed_1730000000.6''
   \<and> http_status (fst (get_profile_sample fake_users_db_sample ''token_jwt_refreshed_1730000000.5''
        ''2024-06-01T12:00:00'')) \<noteq> 401
   \<and> http_status (fst (refresh_token_sample fake_users_db_sample ''token_jwt_refreshed_1730000000.5''
        ''1730000001.5'' ''1730000001.6'')) = 401
   \<and> http_status (fst (refresh_token_sample fake_users_db_sample ''refresh_refreshed_1730000000.6''
        ''1730000001.5'' ''1730000001.6'')) = 200
   \<and> http_status (fst (get_profile_sample fake_users_db_sample ''refresh_refreshed_1730000000.6''
        ''2024-06-01T12:00:00'')) = 401"
proof -
  have "fst (refresh_token_sample fake_users_db_sample ''refresh_x'' ''1730000000.5'' ''1730000000.6'') =
      Inr [(''token'', PStr ''token_jwt_refreshed_1730000000.5''),
           (''refreshToken'', PStr ''refresh_refreshed_1730000000.6''),
           (''expiresIn'', PInt 3600)]"
    by (simp add: refresh_token_sample_def startswith_def)
  then have h: "issued ''token_jwt_refreshed_1730000000.5'' ''refresh_refreshed_1730000000.6''"
    by (rule issued.by_refresh_token_sample) simp_all
  from issued_tokens_not_interchangeable [OF h, of fake_users_db_sample "''2024-06-01T12:00:00''"
      "''1730000001.5''" "''1730000001.6''"] h
  show ?thesis by simp
qed

end
